theory Spec2Isabelle
  imports Main "HOL-Library.Word"
begin

section \<open>Storage adapters of the charge-point client (FilesystemAdapter.cpp)\<close>

text \<open>
  The source file holds two alternative builds of the storage adapter, selected by
  \<^verbatim>\<open>AO_USE_FILEAPI\<close>: one over the Arduino \<^verbatim>\<open>FS\<close> API (LittleFS or SPIFFS) and one over
  the ESP-IDF VFS with the C library's streams. Both are thin layers over a platform
  library, which is not part of the repository. The library is described first, by its
  documented behaviour on an explicit flash state; the adapter functions follow, one
  definition per source function, with the state of the flash and of the caller's memory
  passed in and returned.
\<close>

subsection \<open>Platform types\<close>

text \<open>Both targets (ESP8266, ESP32) are 32-bit: \<^verbatim>\<open>size_t\<close> and \<^verbatim>\<open>long\<close> have 32 bits.\<close>

type_synonym size_t = "32 word"
type_synonym byte = "8 word"
type_synonym path = string

text \<open>
  The caller's memory, as far as \<^verbatim>\<open>stat\<close> reaches it: the \<^verbatim>\<open>size_t\<close> objects that
  a \<^verbatim>\<open>size_t *\<close> can point to, by address.
\<close>

type_synonym addr = nat
type_synonym memory = "addr \<Rightarrow> size_t"

datatype node = RegularFile "byte list" | Directory

datatype partition = Formatted | Blank | Missing

text \<open>
  The flash as the library calls see it: the state of the data partition, whether it is
  mounted, the tree of named nodes, the number of bytes the medium still accepts, and
  \<open>io_ok\<close>, which is \<open>False\<close> while the medium answers every access with an I/O error.
  The last field is a parameter of the C library rather than of the medium: the size of
  the buffer it gives a stream (\<^verbatim>\<open>BUFSIZ\<close> or the block size of the file system).
\<close>

record flash =
  partition :: partition
  mounted :: bool
  io_ok :: bool
  nodes :: "path \<rightharpoonup> node"
  free_bytes :: nat
  stream_bufsize :: nat

definition is_regular :: "flash \<Rightarrow> path \<Rightarrow> bool" where
  "is_regular fs p = (case nodes fs p of Some (RegularFile bs) \<Rightarrow> True | _ \<Rightarrow> False)"

definition contents :: "flash \<Rightarrow> path \<Rightarrow> byte list" where
  "contents fs p = (case nodes fs p of Some (RegularFile bs) \<Rightarrow> bs | _ \<Rightarrow> [])"

subsection \<open>Open modes\<close>

text \<open>The mode strings of \<^verbatim>\<open>fopen\<close>, which the Arduino API shares: r, w, a, each with an optional +.\<close>

definition mode_valid :: "string \<Rightarrow> bool" where
  "mode_valid m = (case m of [] \<Rightarrow> False | c # _ \<Rightarrow> c = CHR ''r'' \<or> c = CHR ''w'' \<or> c = CHR ''a'')"

definition mode_creates :: "string \<Rightarrow> bool" where
  "mode_creates m = (case m of [] \<Rightarrow> False | c # _ \<Rightarrow> c = CHR ''w'' \<or> c = CHR ''a'')"

definition mode_truncates :: "string \<Rightarrow> bool" where
  "mode_truncates m = (case m of [] \<Rightarrow> False | c # _ \<Rightarrow> c = CHR ''w'')"

definition mode_appends :: "string \<Rightarrow> bool" where
  "mode_appends m = (case m of [] \<Rightarrow> False | c # _ \<Rightarrow> c = CHR ''a'')"

definition mode_reads :: "string \<Rightarrow> bool" where
  "mode_reads m = (case m of [] \<Rightarrow> False | c # r \<Rightarrow> c = CHR ''r'' \<or> CHR ''+'' \<in> set r)"

definition mode_writes :: "string \<Rightarrow> bool" where
  "mode_writes m =
     (case m of [] \<Rightarrow> False | c # r \<Rightarrow> c = CHR ''w'' \<or> c = CHR ''a'' \<or> CHR ''+'' \<in> set r)"

text \<open>What opening a path in a mode does to the tree: w empties a file, w and a create it.\<close>

definition open_effect :: "flash \<Rightarrow> path \<Rightarrow> string \<Rightarrow> flash" where
  "open_effect fs p m =
     (case nodes fs p of
        None \<Rightarrow> fs\<lparr>nodes := (nodes fs)(p \<mapsto> RegularFile [])\<rparr>
      | Some (RegularFile bs) \<Rightarrow>
          (if mode_truncates m then fs\<lparr>nodes := (nodes fs)(p \<mapsto> RegularFile [])\<rparr> else fs)
      | Some Directory \<Rightarrow> fs)"

subsection \<open>The Arduino file system object (\<^verbatim>\<open>USE_FS\<close>) and its \<^verbatim>\<open>File\<close>\<close>

text \<open>
  A \<^verbatim>\<open>File\<close> converts to \<^verbatim>\<open>true\<close> when it is open (\<open>file_valid\<close>); an open \<^verbatim>\<open>File\<close>
  is a regular file or a directory.
\<close>

record File =
  file_valid :: bool
  file_path :: path
  file_isFile :: bool
  file_size :: size_t

definition no_File :: File where
  "no_File = \<lparr>file_valid = False, file_path = [], file_isFile = False, file_size = 0\<rparr>"

definition File_close :: "File \<Rightarrow> File" where
  "File_close f = f\<lparr>file_valid := False\<rparr>"

definition USE_FS_exists :: "flash \<Rightarrow> path \<Rightarrow> bool" where
  "USE_FS_exists fs p = (io_ok fs \<and> nodes fs p \<noteq> None)"

text \<open>
  \<^verbatim>\<open>USE_FS.open(path, mode)\<close>: an existing directory opens as a directory in every mode,
  an existing file opens, an absent path opens only in a creating mode.
\<close>

definition USE_FS_open :: "flash \<Rightarrow> path \<Rightarrow> string \<Rightarrow> File \<times> flash" where
  "USE_FS_open fs p m =
     (if \<not> io_ok fs \<or> \<not> mode_valid m then (no_File, fs)
      else
        (case nodes fs p of
           Some Directory \<Rightarrow>
             (\<lparr>file_valid = True, file_path = p, file_isFile = False, file_size = 0\<rparr>, fs)
         | Some (RegularFile bs) \<Rightarrow>
             (\<lparr>file_valid = True, file_path = p, file_isFile = True,
               file_size = (if mode_truncates m then 0 else of_nat (length bs))\<rparr>,
              open_effect fs p m)
         | None \<Rightarrow>
             (if mode_creates m
              then (\<lparr>file_valid = True, file_path = p, file_isFile = True, file_size = 0\<rparr>,
                    open_effect fs p m)
              else (no_File, fs))))"


text \<open>
  \<^verbatim>\<open>USE_FS.begin(formatOnFail)\<close> (on the ESP8266: \<^verbatim>\<open>setAutoFormat\<close>, then \<^verbatim>\<open>begin()\<close>):
  mounts a formatted partition, and a blank one after formatting it when asked to.
\<close>

definition USE_FS_begin :: "flash \<Rightarrow> bool \<Rightarrow> bool \<times> flash" where
  "USE_FS_begin fs formatOnFail =
     (if mounted fs then (True, fs)
      else
        (case partition fs of
           Formatted \<Rightarrow> (True, fs\<lparr>mounted := True\<rparr>)
         | Blank \<Rightarrow>
             (if formatOnFail
              then (True, fs\<lparr>partition := Formatted, mounted := True, nodes := Map.empty\<rparr>)
              else (False, fs))
         | Missing \<Rightarrow> (False, fs)))"

definition USE_FS_end :: "flash \<Rightarrow> flash" where
  "USE_FS_end fs = fs\<lparr>mounted := False\<rparr>"

subsection \<open>The ESP-IDF side: \<^verbatim>\<open>::stat\<close>, \<^verbatim>\<open>unlink\<close>, the SPIFFS registration and C streams\<close>

record struct_stat =
  st_is_reg :: bool
  st_size :: size_t

text \<open>
  \<^verbatim>\<open>::stat(path, &st)\<close> returns 0 and fills \<^verbatim>\<open>st\<close>, or returns -1; the second component
  is the \<^verbatim>\<open>st\<close> the caller holds afterwards, which nothing has initialised when the call
  failed (the adapter does not read it then).
\<close>

definition posix_stat :: "flash \<Rightarrow> path \<Rightarrow> int \<times> struct_stat" where
  "posix_stat fs p =
     (if \<not> io_ok fs then (- 1, \<lparr>st_is_reg = False, st_size = 0\<rparr>)
      else
        (case nodes fs p of
           None \<Rightarrow> (- 1, \<lparr>st_is_reg = False, st_size = 0\<rparr>)
         | Some (RegularFile bs) \<Rightarrow> (0, \<lparr>st_is_reg = True, st_size = of_nat (length bs)\<rparr>)
         | Some Directory \<Rightarrow> (0, \<lparr>st_is_reg = False, st_size = 0\<rparr>)))"


datatype esp_err_t = ESP_OK | ESP_FAIL | ESP_ERR_NOT_FOUND | ESP_ERR_INVALID_STATE

definition esp_vfs_spiffs_register :: "flash \<Rightarrow> bool \<Rightarrow> esp_err_t \<times> flash" where
  "esp_vfs_spiffs_register fs format_if_mount_failed =
     (if mounted fs then (ESP_ERR_INVALID_STATE, fs)
      else
        (case partition fs of
           Formatted \<Rightarrow> (ESP_OK, fs\<lparr>mounted := True\<rparr>)
         | Blank \<Rightarrow>
             (if format_if_mount_failed
              then (ESP_OK, fs\<lparr>partition := Formatted, mounted := True, nodes := Map.empty\<rparr>)
              else (ESP_FAIL, fs))
         | Missing \<Rightarrow> (ESP_ERR_NOT_FOUND, fs)))"

definition esp_vfs_spiffs_unregister :: "flash \<Rightarrow> flash" where
  "esp_vfs_spiffs_unregister fs = fs\<lparr>mounted := False\<rparr>"

text \<open>
  A C stream (\<^verbatim>\<open>FILE\<close>): the file it is open on, the position of its descriptor in the
  file, what its mode allows, and its output buffer. The source opens every stream with
  \<^verbatim>\<open>fopen\<close> and never calls \<^verbatim>\<open>setvbuf\<close> or \<^verbatim>\<open>fflush\<close>, so the stream is fully
  buffered: \<open>fd_buf\<close> holds the bytes that \<^verbatim>\<open>fwrite\<close> has accepted and not yet passed to
  the medium, and \<open>fd_bufsize\<close> is the size of the buffer. (Read-ahead is not modelled:
  it does not change what a read returns.)
\<close>

record FILE =
  fd_path :: path
  fd_pos :: nat
  fd_read :: bool
  fd_write :: bool
  fd_append :: bool
  fd_buf :: "byte list"
  fd_bufsize :: nat

text \<open>\<^verbatim>\<open>fopen\<close> returns a stream or \<^verbatim>\<open>NULL\<close> (\<open>None\<close>); a directory does not open as a stream.\<close>

definition fopen :: "flash \<Rightarrow> path \<Rightarrow> string \<Rightarrow> FILE option \<times> flash" where
  "fopen fs p m =
     (if \<not> io_ok fs \<or> \<not> mode_valid m then (None, fs)
      else if nodes fs p = Some Directory then (None, fs)
      else if nodes fs p = None \<and> \<not> mode_creates m then (None, fs)
      else
        (Some \<lparr>fd_path = p, fd_pos = 0, fd_read = mode_reads m, fd_write = mode_writes m,
               fd_append = mode_appends m, fd_buf = [], fd_bufsize = stream_bufsize fs\<rparr>,
         open_effect fs p m))"

text \<open>Where a write starts: at the end of the file for a stream opened to append, else at the position.\<close>

definition write_start :: "flash \<Rightarrow> FILE \<Rightarrow> nat" where
  "write_start fs file =
     (if fd_append file then length (contents fs (fd_path file)) else fd_pos file)"

text \<open>
  \<^verbatim>\<open>write\<close> on the descriptor of the stream: stores as many bytes of the chunk as the
  medium accepts from \<open>write_start\<close> on (after padding with zeros when that is beyond the
  end) and returns their number, or returns -1 when it stored none.
\<close>

definition posix_write :: "flash \<Rightarrow> FILE \<Rightarrow> byte list \<Rightarrow> int \<times> flash \<times> FILE" where
  "posix_write fs file chunk =
     (if chunk = [] then (0, fs, file)
      else if io_ok fs \<and> is_regular fs (fd_path file) \<and> free_bytes fs \<noteq> 0
      then
        let old = contents fs (fd_path file);
            start = write_start fs file;
            padded = old @ replicate (start - length old) 0;
            put = take (free_bytes fs) chunk;
            new = take start padded @ put @ drop (start + length put) padded
        in (int (length put),
            fs\<lparr>nodes := (nodes fs)(fd_path file \<mapsto> RegularFile new),
               free_bytes := free_bytes fs - length put\<rparr>,
            file\<lparr>fd_pos := start + length put\<rparr>)
      else (- 1, fs, file))"

text \<open>The medium stores nothing of a write on the stream.\<close>

definition medium_fails :: "flash \<Rightarrow> FILE \<Rightarrow> bool" where
  "medium_fails fs file = (\<not> io_ok fs \<or> \<not> is_regular fs (fd_path file) \<or> free_bytes fs = 0)"

text \<open>
  The loop that empties the buffer: it writes what is pending until nothing is left, and
  gives up with \<^verbatim>\<open>EOF\<close> (-1) at the first \<^verbatim>\<open>write\<close> that stores nothing; the rest of the
  pending bytes is lost then.
\<close>

function sflush :: "flash \<Rightarrow> FILE \<Rightarrow> byte list \<Rightarrow> int \<times> flash \<times> FILE" where
  "sflush fs file pending =
     (if pending = [] then (0, fs, file)
      else
        (case posix_write fs file pending of
           (t, fs', file') \<Rightarrow>
             if t \<le> 0 then (- 1, fs', file') else sflush fs' file' (drop (nat t) pending)))"
  by pat_completeness auto
termination
  by (relation "measure (\<lambda>(fs, file, pending). length pending)") auto

text \<open>\<^verbatim>\<open>fflush\<close>: the buffer is emptied first, then its bytes go through the loop.\<close>

definition fflush :: "flash \<Rightarrow> FILE \<Rightarrow> int \<times> flash \<times> FILE" where
  "fflush fs file = sflush fs (file\<lparr>fd_buf := []\<rparr>) (fd_buf file)"




text \<open>
  The part of \<^verbatim>\<open>fwrite\<close> that runs on an empty buffer: while at least a buffer's worth of
  bytes is left, one buffer's worth is written to the medium directly; what is left after
  that is smaller than the buffer and is copied into it. The result starts with the number
  of bytes the stream has taken.
\<close>

function write_direct :: "flash \<Rightarrow> FILE \<Rightarrow> byte list \<Rightarrow> nat \<times> flash \<times> FILE" where
  "write_direct fs file bytes =
     (if bytes \<noteq> [] \<and> fd_bufsize file \<le> length bytes
      then
        (case posix_write fs file (take (fd_bufsize file) bytes) of
           (t, fs', file') \<Rightarrow>
             if t \<le> 0 then (0, fs', file')
             else
               (case write_direct fs' file' (drop (nat t) bytes) of
                  (n, fs'', file'') \<Rightarrow> (nat t + n, fs'', file'')))
      else (length bytes, fs, file\<lparr>fd_buf := fd_buf file @ bytes\<rparr>))"
  by pat_completeness auto
termination
  by (relation "measure (\<lambda>(fs, file, bytes). length bytes)") auto




text \<open>
  \<^verbatim>\<open>fseek(file, offset, SEEK_SET)\<close>: pending output is flushed first. \<^verbatim>\<open>offset\<close> is a
  \<^verbatim>\<open>long\<close>; a negative one is refused. Returns 0 when the position was set and -1
  otherwise.
\<close>

definition fseek_SET :: "flash \<Rightarrow> FILE \<Rightarrow> 32 word \<Rightarrow> int \<times> flash \<times> FILE" where
  "fseek_SET fs file offset =
     (case fflush fs file of
        (r, fs', file') \<Rightarrow>
          if r = 0 \<and> io_ok fs' \<and> 0 \<le> sint offset
          then (0, fs', file'\<lparr>fd_pos := nat (sint offset)\<rparr>)
          else (- 1, fs', file'))"

subsection \<open>\<^verbatim>\<open>FilesystemOpt\<close>\<close>

text \<open>
  \<^verbatim>\<open>FilesystemOpt\<close> is declared in \<^verbatim>\<open>ConfigurationOptions.h\<close>, which is not among the
  sources at hand. The adapters only call its three accessors; their results are the
  fields here.
\<close>

record FilesystemOpt =
  accessAllowed :: bool
  mustMount :: bool
  formatOnFail :: bool

subsection \<open>The Arduino build: \<^verbatim>\<open>ArduinoFileAdapter\<close>, \<^verbatim>\<open>ArduinoFilesystemAdapter\<close>\<close>

text \<open>A file handle owns its \<^verbatim>\<open>File\<close>; the destructor closes it when it is open.\<close>

datatype ArduinoFileAdapter = ArduinoFileAdapter File

fun ArduinoFileAdapter_dtor :: "ArduinoFileAdapter \<Rightarrow> File" where
  "ArduinoFileAdapter_dtor (ArduinoFileAdapter f) = (if file_valid f then File_close f else f)"

record ArduinoFilesystemAdapter =
  valid :: bool
  config :: FilesystemOpt

text \<open>
  The constructor sets \<^verbatim>\<open>valid = true\<close> and, when the configuration asks to mount,
  clears it if \<^verbatim>\<open>begin\<close> fails. Both \<^verbatim>\<open>#if\<close> branches (LittleFS, SPIFFS) do the same.
\<close>

definition ArduinoFilesystemAdapter_ctor ::
    "flash \<Rightarrow> FilesystemOpt \<Rightarrow> ArduinoFilesystemAdapter \<times> flash" where
  "ArduinoFilesystemAdapter_ctor fs cfg =
     (if mustMount cfg
      then
        let (began, fs') = USE_FS_begin fs (formatOnFail cfg)
        in (\<lparr>valid = (if \<not> began then False else True), config = cfg\<rparr>, fs')
      else (\<lparr>valid = True, config = cfg\<rparr>, fs))"

definition ArduinoFilesystemAdapter_dtor :: "flash \<Rightarrow> ArduinoFilesystemAdapter \<Rightarrow> flash" where
  "ArduinoFilesystemAdapter_dtor fs a = (if mustMount (config a) then USE_FS_end fs else fs)"

text \<open>
  \<^verbatim>\<open>stat(path, size)\<close>. The statement \<^verbatim>\<open>size = f.size();\<close> assigns the parameter
  \<^verbatim>\<open>size\<close> itself, a local pointer, which is \<open>size_p'\<close> below; the caller's memory is
  not written. The file is opened to read and closed again, which leaves the flash as it was.
\<close>

definition ArduinoFilesystemAdapter_stat ::
    "flash \<Rightarrow> path \<Rightarrow> addr \<Rightarrow> memory \<Rightarrow> int \<times> memory" where
  "ArduinoFilesystemAdapter_stat fs path size_p mem =
     (if \<not> USE_FS_exists fs path then (- 1, mem)
      else
        let f = fst (USE_FS_open fs path ''r'') in
        if \<not> file_valid f then (- 1, mem)
        else
          let (status, size_p') =
                (if file_isFile f then (0, unat (file_size f)) else (- 1, size_p))
          in (status, mem))"

definition ArduinoFilesystemAdapter_open ::
    "flash \<Rightarrow> path \<Rightarrow> string \<Rightarrow> ArduinoFileAdapter option \<times> flash" where
  "ArduinoFilesystemAdapter_open fs fn mode =
     (let (file, fs') = USE_FS_open fs fn mode
      in if file_valid file \<and> file_isFile file
         then (Some (ArduinoFileAdapter file), fs')
         else (None, fs'))"


text \<open>
  The factory of the Arduino build. An adapter that is not valid is dropped, which runs
  its destructor.
\<close>

definition makeDefaultFilesystemAdapter_Arduino ::
    "flash \<Rightarrow> FilesystemOpt \<Rightarrow> ArduinoFilesystemAdapter option \<times> flash" where
  "makeDefaultFilesystemAdapter_Arduino fs cfg =
     (if \<not> accessAllowed cfg then (None, fs)
      else
        let (a, fs') = ArduinoFilesystemAdapter_ctor fs cfg
        in if valid a then (Some a, fs')
           else (None, ArduinoFilesystemAdapter_dtor fs' a))"

subsection \<open>The ESP-IDF build: \<^verbatim>\<open>EspIdfFileAdapter\<close>, \<^verbatim>\<open>EspIdfFilesystemAdapter\<close>\<close>

datatype EspIdfFileAdapter = EspIdfFileAdapter FILE




text \<open>
  \<^verbatim>\<open>seek(offset)\<close> returns what \<^verbatim>\<open>fseek(file, offset, SEEK_SET)\<close> returns: the
  \<^verbatim>\<open>size_t\<close> offset is passed as a \<^verbatim>\<open>long\<close>, and the \<^verbatim>\<open>int\<close> result is converted
  to the \<^verbatim>\<open>size_t\<close> return type.
\<close>

fun EspIdfFileAdapter_seek ::
    "flash \<Rightarrow> EspIdfFileAdapter \<Rightarrow> size_t \<Rightarrow> size_t \<times> flash \<times> EspIdfFileAdapter" where
  "EspIdfFileAdapter_seek fs (EspIdfFileAdapter file) offset =
     (case fseek_SET fs file offset of
        (r, fs', file') \<Rightarrow> (word_of_int r, fs', EspIdfFileAdapter file'))"


datatype EspIdfFilesystemAdapter = EspIdfFilesystemAdapter FilesystemOpt

fun EspIdfFilesystemAdapter_dtor :: "flash \<Rightarrow> EspIdfFilesystemAdapter \<Rightarrow> flash" where
  "EspIdfFilesystemAdapter_dtor fs (EspIdfFilesystemAdapter cfg) =
     (if mustMount cfg then esp_vfs_spiffs_unregister fs else fs)"

definition EspIdfFilesystemAdapter_stat ::
    "flash \<Rightarrow> path \<Rightarrow> addr \<Rightarrow> memory \<Rightarrow> int \<times> memory" where
  "EspIdfFilesystemAdapter_stat fs path size_p mem =
     (let (ret, st) = posix_stat fs path
      in (ret, if ret = 0 then mem(size_p := st_size st) else mem))"

definition EspIdfFilesystemAdapter_open ::
    "flash \<Rightarrow> path \<Rightarrow> string \<Rightarrow> EspIdfFileAdapter option \<times> flash" where
  "EspIdfFilesystemAdapter_open fs fn mode =
     (let (file, fs') = fopen fs fn mode
      in case file of
           Some f \<Rightarrow> (Some (EspIdfFileAdapter f), fs')
         | None \<Rightarrow> (None, fs'))"


text \<open>
  The factory of the ESP-IDF build: \<^verbatim>\<open>mounted\<close> starts \<^verbatim>\<open>true\<close>, and when the
  configuration asks to mount it is \<^verbatim>\<open>true\<close> only if the registration returned
  \<^verbatim>\<open>ESP_OK\<close> (the other results differ in the message logged).
\<close>

definition makeDefaultFilesystemAdapter_EspIdf ::
    "flash \<Rightarrow> FilesystemOpt \<Rightarrow> EspIdfFilesystemAdapter option \<times> flash" where
  "makeDefaultFilesystemAdapter_EspIdf fs cfg =
     (if \<not> accessAllowed cfg then (None, fs)
      else
        let (is_mounted, fs') =
              (if mustMount cfg
               then
                 let (ret, fs1) = esp_vfs_spiffs_register fs (formatOnFail cfg)
                 in (if ret = ESP_OK then True else False, fs1)
               else (True, fs))
        in if is_mounted then (Some (EspIdfFilesystemAdapter cfg), fs') else (None, fs'))"

subsection \<open>Sample states\<close>

text \<open>
  A mounted flash with one three-byte file and one directory, and room for two more bytes;
  streams get a buffer of 128 bytes.
\<close>

definition sample_flash :: flash where
  "sample_flash =
     \<lparr>partition = Formatted, mounted = True, io_ok = True,
      nodes = [''/ao/tx.jsn'' \<mapsto> RegularFile [1, 2, 3], ''/ao/dir'' \<mapsto> Directory],
      free_bytes = 2, stream_bufsize = 128\<rparr>"

definition failing_flash :: flash where
  "failing_flash = sample_flash\<lparr>io_ok := False\<rparr>"

text \<open>A flash whose partition is gone and whose medium fails every access.\<close>

definition dead_flash :: flash where
  "dead_flash =
     \<lparr>partition = Missing, mounted = False, io_ok = False,
      nodes = [''/ao/tx.jsn'' \<mapsto> RegularFile [1, 2, 3]], free_bytes = 0,
      stream_bufsize = 128\<rparr>"

definition blank_flash :: flash where
  "blank_flash =
     \<lparr>partition = Blank, mounted = False, io_ok = True, nodes = Map.empty, free_bytes = 100,
      stream_bufsize = 128\<rparr>"

definition sample_memory :: memory where
  "sample_memory = (\<lambda>a. 0)"

definition sample_stream :: FILE where
  "sample_stream =
     \<lparr>fd_path = ''/ao/tx.jsn'', fd_pos = 1, fd_read = True, fd_write = True, fd_append = False,
      fd_buf = [], fd_bufsize = 128\<rparr>"

text \<open>The sample stream after it has accepted four bytes, and with a buffer of two bytes.\<close>

definition pending_stream :: FILE where
  "pending_stream = sample_stream\<lparr>fd_buf := [9, 8, 7, 6]\<rparr>"




definition mount_plain :: FilesystemOpt where
  "mount_plain = \<lparr>accessAllowed = True, mustMount = True, formatOnFail = False\<rparr>"

definition mount_format :: FilesystemOpt where
  "mount_format = \<lparr>accessAllowed = True, mustMount = True, formatOnFail = True\<rparr>"

definition no_access :: FilesystemOpt where
  "no_access = \<lparr>accessAllowed = False, mustMount = False, formatOnFail = False\<rparr>"

section \<open>Properties\<close>

lemmas sample_defs =
  sample_flash_def failing_flash_def dead_flash_def blank_flash_def sample_memory_def
  sample_stream_def
  mount_plain_def mount_format_def no_access_def

lemmas mode_defs =
  mode_valid_def mode_creates_def mode_truncates_def mode_appends_def mode_reads_def
  mode_writes_def

subsection \<open>\<^verbatim>\<open>stat\<close>\<close>

text \<open>Opening to read changes nothing on the flash, so \<^verbatim>\<open>stat\<close> leaves it as it was.\<close>

lemma USE_FS_open_read_keeps_flash: "snd (USE_FS_open fs p ''r'') = fs"
  by (simp add: USE_FS_open_def open_effect_def mode_defs split: option.splits node.splits)

lemma Arduino_stat_memory: "snd (ArduinoFilesystemAdapter_stat fs p a mem) = mem"
  by (simp add: ArduinoFilesystemAdapter_stat_def Let_def split: prod.splits)

lemma Arduino_stat_status:
  "fst (ArduinoFilesystemAdapter_stat fs p a mem) =
     (if USE_FS_exists fs p \<and> file_valid (fst (USE_FS_open fs p ''r''))
         \<and> file_isFile (fst (USE_FS_open fs p ''r'')) then 0 else - 1)"
  by (simp add: ArduinoFilesystemAdapter_stat_def Let_def)

lemma EspIdf_stat_status: "fst (EspIdfFilesystemAdapter_stat fs p a mem) = fst (posix_stat fs p)"
  by (simp add: EspIdfFilesystemAdapter_stat_def split: prod.splits)


lemma posix_stat_absent: "nodes fs p = None \<Longrightarrow> fst (posix_stat fs p) = - 1"
  by (simp add: posix_stat_def)

text \<open>
  On a regular file that the medium serves, the ESP-IDF adapter returns 0 and stores the
  size through the pointer; the Arduino adapter returns 0 and stores nothing.
\<close>

lemma EspIdf_stat_regular:
  "io_ok fs \<Longrightarrow> nodes fs p = Some (RegularFile bs) \<Longrightarrow>
   EspIdfFilesystemAdapter_stat fs p a mem = (0, mem(a := of_nat (length bs)))"
  by (simp add: EspIdfFilesystemAdapter_stat_def posix_stat_def)

lemma Arduino_stat_regular:
  "io_ok fs \<Longrightarrow> nodes fs p = Some (RegularFile bs) \<Longrightarrow>
   ArduinoFilesystemAdapter_stat fs p a mem = (0, mem)"
  by (simp add: ArduinoFilesystemAdapter_stat_def USE_FS_exists_def USE_FS_open_def mode_defs)

text \<open>
  Claim C1 (stat on an existing regular file returns 0 and writes the file's size into the
  caller's size output, in both adapters) fails in the Arduino adapter: on the sample
  flash the file \<^verbatim>\<open>/ao/tx.jsn\<close> has three bytes, \<^verbatim>\<open>stat\<close> returns 0, and the caller's
  \<^verbatim>\<open>size_t\<close> at address 7 still holds the 0 it held before the call.
\<close>

theorem Arduino_stat_size_not_written:
  "length (contents sample_flash ''/ao/tx.jsn'') = 3
   \<and> fst (ArduinoFilesystemAdapter_stat sample_flash ''/ao/tx.jsn'' 7 sample_memory) = 0
   \<and> snd (ArduinoFilesystemAdapter_stat sample_flash ''/ao/tx.jsn'' 7 sample_memory) 7 = 0"
  by (simp add: ArduinoFilesystemAdapter_stat_def USE_FS_exists_def USE_FS_open_def mode_defs
      sample_defs contents_def)

text \<open>
  Claim C5: for every path that does not exist, \<^verbatim>\<open>stat\<close> returns the not-found outcome,
  the nonzero status -1, in both adapters.
\<close>

theorem stat_absent_path_fails:
  "nodes fs path = None \<Longrightarrow>
   fst (ArduinoFilesystemAdapter_stat fs path a mem) = - 1
   \<and> fst (EspIdfFilesystemAdapter_stat fs path a mem) = - 1"
  by (simp add: Arduino_stat_status EspIdf_stat_status posix_stat_absent USE_FS_exists_def)

theorem stat_absent_path_fails_witness:
  "nodes sample_flash ''/ao/none'' = None
   \<and> fst (ArduinoFilesystemAdapter_stat sample_flash ''/ao/none'' 7 sample_memory) = - 1
   \<and> fst (EspIdfFilesystemAdapter_stat sample_flash ''/ao/none'' 7 sample_memory) = - 1"
  using stat_absent_path_fails [of sample_flash "''/ao/none''" 7 sample_memory]
  by (simp add: sample_defs)

text \<open>
  Claim C10: whenever \<^verbatim>\<open>stat\<close> returns a nonzero status, the caller's size output is
  what it was before the call, in both adapters.
\<close>

theorem stat_failure_keeps_size:
  "(fst (ArduinoFilesystemAdapter_stat fs path a mem) \<noteq> 0 \<longrightarrow>
      snd (ArduinoFilesystemAdapter_stat fs path a mem) = mem)
   \<and> (fst (EspIdfFilesystemAdapter_stat fs path a mem) \<noteq> 0 \<longrightarrow>
      snd (EspIdfFilesystemAdapter_stat fs path a mem) = mem)"
  by (simp add: Arduino_stat_memory EspIdfFilesystemAdapter_stat_def split: prod.splits)

theorem stat_failure_keeps_size_witness:
  "fst (ArduinoFilesystemAdapter_stat sample_flash ''/ao/dir'' 7 (sample_memory(7 := 9))) \<noteq> 0
   \<and> fst (EspIdfFilesystemAdapter_stat failing_flash ''/ao/tx.jsn'' 7 (sample_memory(7 := 9))) \<noteq> 0
   \<and> snd (ArduinoFilesystemAdapter_stat sample_flash ''/ao/dir'' 7 (sample_memory(7 := 9))) 7 = 9
   \<and> snd (EspIdfFilesystemAdapter_stat failing_flash ''/ao/tx.jsn'' 7 (sample_memory(7 := 9))) 7 = 9"
proof -
  have a: "fst (ArduinoFilesystemAdapter_stat sample_flash ''/ao/dir'' 7 (sample_memory(7 := 9))) \<noteq> 0"
    by (simp add: Arduino_stat_status USE_FS_exists_def USE_FS_open_def mode_defs sample_defs)
  have e: "fst (EspIdfFilesystemAdapter_stat failing_flash ''/ao/tx.jsn'' 7 (sample_memory(7 := 9))) \<noteq> 0"
    by (simp add: EspIdf_stat_status posix_stat_def sample_defs)
  from a e
    stat_failure_keeps_size [of sample_flash "''/ao/dir''" 7 "sample_memory(7 := 9)"]
    stat_failure_keeps_size [of failing_flash "''/ao/tx.jsn''" 7 "sample_memory(7 := 9)"]
  show ?thesis by simp
qed

subsection \<open>Directories in the Arduino adapter\<close>

text \<open>
  Claim C8: in the Arduino adapter a path that names an existing directory is treated as
  absent: \<^verbatim>\<open>stat\<close> returns -1 and \<^verbatim>\<open>open\<close> returns null, although the file system
  underneath reports that the path exists and opens it.
\<close>

theorem Arduino_directory_treated_as_absent:
  "nodes fs path = Some Directory \<Longrightarrow>
   fst (ArduinoFilesystemAdapter_stat fs path a mem) = - 1
   \<and> fst (ArduinoFilesystemAdapter_open fs path mode) = None
   \<and> (io_ok fs \<and> mode_valid mode \<longrightarrow>
        USE_FS_exists fs path \<and> file_valid (fst (USE_FS_open fs path mode)))"
  by (simp add: Arduino_stat_status ArduinoFilesystemAdapter_open_def USE_FS_exists_def
      USE_FS_open_def no_File_def mode_defs split: prod.splits)

theorem Arduino_directory_treated_as_absent_witness:
  "nodes sample_flash ''/ao/dir'' = Some Directory
   \<and> io_ok sample_flash \<and> mode_valid ''r''
   \<and> fst (ArduinoFilesystemAdapter_stat sample_flash ''/ao/dir'' 7 sample_memory) = - 1
   \<and> fst (ArduinoFilesystemAdapter_open sample_flash ''/ao/dir'' ''r'') = None
   \<and> USE_FS_exists sample_flash ''/ao/dir''
   \<and> file_valid (fst (USE_FS_open sample_flash ''/ao/dir'' ''r''))"
proof -
  have d: "nodes sample_flash ''/ao/dir'' = Some Directory"
    by (simp add: sample_defs)
  have k: "io_ok sample_flash \<and> mode_valid ''r''"
    by (simp add: sample_defs mode_defs)
  from d k Arduino_directory_treated_as_absent [OF d, of 7 sample_memory "''r''"]
  show ?thesis by simp
qed

subsection \<open>\<^verbatim>\<open>open\<close>\<close>

text \<open>
  Claim C6 (open returns a handle exactly when the file system underneath opens the path)
  fails in the Arduino adapter on a directory: the library opens \<^verbatim>\<open>/ao/dir\<close>, and the
  adapter returns null.
\<close>

theorem Arduino_open_directory_null:
  "file_valid (fst (USE_FS_open sample_flash ''/ao/dir'' ''r''))
   \<and> fst (ArduinoFilesystemAdapter_open sample_flash ''/ao/dir'' ''r'') = None"
  by (simp add: ArduinoFilesystemAdapter_open_def USE_FS_open_def mode_defs sample_defs)

text \<open>
  Claim C6, amended: \<^verbatim>\<open>open\<close> returns a handle exactly when the file system underneath
  opens the path and, in the Arduino adapter, what it opened is a regular file; the handle
  wraps the object the library returned; in every other case \<^verbatim>\<open>open\<close> returns null. So
  no handle wraps a failed open.
\<close>

theorem open_handle_iff_opened:
  "(fst (ArduinoFilesystemAdapter_open fs fn mode) = Some h \<longleftrightarrow>
      file_valid (fst (USE_FS_open fs fn mode)) \<and> file_isFile (fst (USE_FS_open fs fn mode))
      \<and> h = ArduinoFileAdapter (fst (USE_FS_open fs fn mode)))
   \<and> (fst (ArduinoFilesystemAdapter_open fs fn mode) = None \<longleftrightarrow>
      \<not> (file_valid (fst (USE_FS_open fs fn mode)) \<and> file_isFile (fst (USE_FS_open fs fn mode))))
   \<and> (fst (EspIdfFilesystemAdapter_open fs fn mode) = Some e \<longleftrightarrow>
      (\<exists>f. fst (fopen fs fn mode) = Some f \<and> e = EspIdfFileAdapter f))
   \<and> (fst (EspIdfFilesystemAdapter_open fs fn mode) = None \<longleftrightarrow> fst (fopen fs fn mode) = None)"
  by (auto simp add: ArduinoFilesystemAdapter_open_def EspIdfFilesystemAdapter_open_def
      split: prod.splits option.splits)

theorem open_handle_iff_opened_witness:
  "fst (ArduinoFilesystemAdapter_open sample_flash ''/ao/tx.jsn'' ''r'')
     = Some (ArduinoFileAdapter
         \<lparr>file_valid = True, file_path = ''/ao/tx.jsn'', file_isFile = True, file_size = 3\<rparr>)
   \<and> fst (EspIdfFilesystemAdapter_open sample_flash ''/ao/tx.jsn'' ''r'')
     = Some (EspIdfFileAdapter
         \<lparr>fd_path = ''/ao/tx.jsn'', fd_pos = 0, fd_read = True, fd_write = False,
          fd_append = False, fd_buf = [], fd_bufsize = 128\<rparr>)
   \<and> fst (ArduinoFilesystemAdapter_open failing_flash ''/ao/tx.jsn'' ''r'') = None
   \<and> fst (EspIdfFilesystemAdapter_open failing_flash ''/ao/tx.jsn'' ''r'') = None"
proof -
  have a: "fst (USE_FS_open sample_flash ''/ao/tx.jsn'' ''r'')
      = \<lparr>file_valid = True, file_path = ''/ao/tx.jsn'', file_isFile = True, file_size = 3\<rparr>"
    by (simp add: USE_FS_open_def mode_defs sample_defs)
  have e: "fst (fopen sample_flash ''/ao/tx.jsn'' ''r'')
      = Some \<lparr>fd_path = ''/ao/tx.jsn'', fd_pos = 0, fd_read = True, fd_write = False,
          fd_append = False, fd_buf = [], fd_bufsize = 128\<rparr>"
    by (simp add: fopen_def mode_defs sample_defs)
  have a': "\<not> file_valid (fst (USE_FS_open failing_flash ''/ao/tx.jsn'' ''r''))"
    by (simp add: USE_FS_open_def no_File_def sample_defs)
  have e': "fst (fopen failing_flash ''/ao/tx.jsn'' ''r'') = None"
    by (simp add: fopen_def sample_defs)
  from a e a' e'
    open_handle_iff_opened [of sample_flash "''/ao/tx.jsn''" "''r''"
      "ArduinoFileAdapter
         \<lparr>file_valid = True, file_path = ''/ao/tx.jsn'', file_isFile = True, file_size = 3\<rparr>"
      "EspIdfFileAdapter
         \<lparr>fd_path = ''/ao/tx.jsn'', fd_pos = 0, fd_read = True, fd_write = False,
          fd_append = False, fd_buf = [], fd_bufsize = 128\<rparr>"]
    open_handle_iff_opened [of failing_flash "''/ao/tx.jsn''" "''r''"]
  show ?thesis by simp
qed

subsection \<open>The streams of the C library\<close>


lemma posix_write_fails:
  "chunk \<noteq> [] \<Longrightarrow> medium_fails fs file \<Longrightarrow> posix_write fs file chunk = (- 1, fs, file)"
  by (auto simp add: posix_write_def medium_fails_def)


lemma posix_write_stream:
  "posix_write fs file chunk = (t, fs', file') \<Longrightarrow>
   fd_buf file' = fd_buf file \<and> fd_bufsize file' = fd_bufsize file \<and> fd_path file' = fd_path file"
  by (auto simp add: posix_write_def Let_def split: if_splits)

lemma sflush_Nil: "sflush fs file [] = (0, fs, file)"
  by simp

lemma sflush_fails:
  "pending \<noteq> [] \<Longrightarrow> medium_fails fs file \<Longrightarrow> sflush fs file pending = (- 1, fs, file)"
  by (simp add: posix_write_fails)

lemma fflush_empty: "fd_buf file = [] \<Longrightarrow> fflush fs file = (0, fs, file)"
  by (simp add: fflush_def)


lemma write_direct_small:
  "length bytes < fd_bufsize f \<Longrightarrow>
   write_direct fs f bytes = (length bytes, fs, f\<lparr>fd_buf := fd_buf f @ bytes\<rparr>)"
  by simp

lemma write_direct_Nil: "write_direct fs f [] = (0, fs, f\<lparr>fd_buf := fd_buf f\<rparr>)"
  by simp






subsection \<open>\<^verbatim>\<open>read\<close>, \<^verbatim>\<open>write\<close> and \<^verbatim>\<open>seek\<close> of the ESP-IDF file handle\<close>

lemma nat_sint_unat: "0 \<le> sint (w :: 32 word) \<Longrightarrow> nat (sint w) = unat w"
proof -
  assume nonneg: "0 \<le> sint w"
  have "sint w < 2 ^ 31" using sint_lt [of w] by simp
  then have "sint w < 2 ^ 32" by simp
  with nonneg have "take_bit 32 (sint w) = sint w"
    by (simp add: take_bit_int_eq_self)
  then have "uint w = sint w" using uint_sint [of w] by simp
  then show ?thesis by (simp flip: nat_uint_eq)
qed




lemma EspIdf_seek_unfold:
  "EspIdfFileAdapter_seek fs (EspIdfFileAdapter f) offset =
     (case fflush fs f of
        (r, fs', f') \<Rightarrow>
          if r = 0 \<and> io_ok fs' \<and> 0 \<le> sint offset
          then (0, fs', EspIdfFileAdapter (f'\<lparr>fd_pos := unat offset\<rparr>))
          else (- 1, fs', EspIdfFileAdapter f'))"
  by (auto simp add: fseek_SET_def nat_sint_unat split: prod.splits)

lemma fflush_pending_sample:
  "fflush sample_flash pending_stream
     = (- 1,
        sample_flash\<lparr>nodes := (nodes sample_flash)(''/ao/tx.jsn'' \<mapsto> RegularFile [1, 9, 8]),
                     free_bytes := 0\<rparr>,
        sample_stream\<lparr>fd_pos := 3\<rparr>)"
  by (simp add: fflush_def pending_stream_def sample_defs posix_write_def is_regular_def
      contents_def write_start_def Let_def)

text \<open>
  Claim C2 (seek returns the offset that was seeked to) fails: seeking the sample stream
  to offset 5 succeeds and returns 0.
\<close>

theorem EspIdf_seek_not_offset:
  "fst (EspIdfFileAdapter_seek sample_flash (EspIdfFileAdapter sample_stream) 5) \<noteq> 5"
  by (simp add: EspIdf_seek_unfold fflush_empty sample_defs del: EspIdfFileAdapter_seek.simps)

text \<open>
  Claim C2, amended: \<^verbatim>\<open>seek(offset)\<close> returns the result of \<^verbatim>\<open>fseek\<close>, not the offset:
  0 when the stream was positioned at the offset, and the result -1 as a \<^verbatim>\<open>size_t\<close>
  (all bits set) when the seek failed. \<^verbatim>\<open>fseek\<close> flushes the output the stream holds
  first; on a stream that holds none, a failed seek leaves flash and stream as they were.
\<close>

theorem EspIdf_seek_returns_status:
  "(fd_buf f = [] \<longrightarrow>
      (io_ok fs \<and> 0 \<le> sint offset \<longrightarrow>
         EspIdfFileAdapter_seek fs (EspIdfFileAdapter f) offset
           = (0, fs, EspIdfFileAdapter (f\<lparr>fd_pos := unat offset\<rparr>)))
      \<and> (\<not> (io_ok fs \<and> 0 \<le> sint offset) \<longrightarrow>
         EspIdfFileAdapter_seek fs (EspIdfFileAdapter f) offset
           = (- 1, fs, EspIdfFileAdapter f)))
   \<and> (case fflush fs f of
        (r, fs', f') \<Rightarrow>
          (r = 0 \<and> io_ok fs' \<and> 0 \<le> sint offset \<longrightarrow>
             EspIdfFileAdapter_seek fs (EspIdfFileAdapter f) offset
               = (0, fs', EspIdfFileAdapter (f'\<lparr>fd_pos := unat offset\<rparr>)))
          \<and> (\<not> (r = 0 \<and> io_ok fs' \<and> 0 \<le> sint offset) \<longrightarrow>
             EspIdfFileAdapter_seek fs (EspIdfFileAdapter f) offset
               = (- 1, fs', EspIdfFileAdapter f')))"
proof (intro conjI impI)
  assume "fd_buf f = []" and "io_ok fs \<and> 0 \<le> sint offset"
  then show "EspIdfFileAdapter_seek fs (EspIdfFileAdapter f) offset
           = (0, fs, EspIdfFileAdapter (f\<lparr>fd_pos := unat offset\<rparr>))"
    by (simp add: EspIdf_seek_unfold fflush_empty del: EspIdfFileAdapter_seek.simps)
next
  assume "fd_buf f = []" and "\<not> (io_ok fs \<and> 0 \<le> sint offset)"
  then show "EspIdfFileAdapter_seek fs (EspIdfFileAdapter f) offset
           = (- 1, fs, EspIdfFileAdapter f)"
    by (simp add: EspIdf_seek_unfold fflush_empty del: EspIdfFileAdapter_seek.simps)
next
  show "case fflush fs f of
        (r, fs', f') \<Rightarrow>
          (r = 0 \<and> io_ok fs' \<and> 0 \<le> sint offset \<longrightarrow>
             EspIdfFileAdapter_seek fs (EspIdfFileAdapter f) offset
               = (0, fs', EspIdfFileAdapter (f'\<lparr>fd_pos := unat offset\<rparr>)))
          \<and> (\<not> (r = 0 \<and> io_ok fs' \<and> 0 \<le> sint offset) \<longrightarrow>
             EspIdfFileAdapter_seek fs (EspIdfFileAdapter f) offset
               = (- 1, fs', EspIdfFileAdapter f'))"
    by (simp add: EspIdf_seek_unfold split: prod.splits del: EspIdfFileAdapter_seek.simps)
qed

theorem EspIdf_seek_returns_status_witness:
  "fd_buf sample_stream = [] \<and> io_ok sample_flash \<and> 0 \<le> sint (5 :: 32 word)
   \<and> EspIdfFileAdapter_seek sample_flash (EspIdfFileAdapter sample_stream) 5
        = (0, sample_flash, EspIdfFileAdapter (sample_stream\<lparr>fd_pos := 5\<rparr>))
   \<and> \<not> (io_ok failing_flash \<and> 0 \<le> sint (5 :: 32 word))
   \<and> EspIdfFileAdapter_seek failing_flash (EspIdfFileAdapter sample_stream) 5
        = (0xFFFFFFFF, failing_flash, EspIdfFileAdapter sample_stream)
   \<and> fst (fflush sample_flash pending_stream) \<noteq> 0
   \<and> fst (EspIdfFileAdapter_seek sample_flash (EspIdfFileAdapter pending_stream) 5) = 0xFFFFFFFF"
proof -
  have e: "fd_buf sample_stream = []" by (simp add: sample_defs)
  have ok: "io_ok sample_flash \<and> 0 \<le> sint (5 :: 32 word)"
    by (simp add: sample_defs)
  have bad: "\<not> (io_ok failing_flash \<and> 0 \<le> sint (5 :: 32 word))"
    by (simp add: sample_defs)
  have p: "fst (fflush sample_flash pending_stream) \<noteq> 0"
    by (simp add: fflush_pending_sample)
  from e ok bad p
    EspIdf_seek_returns_status [of sample_stream sample_flash 5]
    EspIdf_seek_returns_status [of sample_stream failing_flash 5]
    EspIdf_seek_returns_status [of pending_stream sample_flash 5]
  show ?thesis by (auto simp add: fflush_pending_sample)
qed












subsection \<open>The factories\<close>

lemma USE_FS_begin_mounts: "fst (USE_FS_begin fs fmt) \<Longrightarrow> mounted (snd (USE_FS_begin fs fmt))"
  by (simp add: USE_FS_begin_def split: partition.splits if_splits)

lemma register_mounts:
  "fst (esp_vfs_spiffs_register fs fmt) = ESP_OK \<Longrightarrow> mounted (snd (esp_vfs_spiffs_register fs fmt))"
  by (simp add: esp_vfs_spiffs_register_def split: partition.splits if_splits)

lemma Arduino_ctor_valid:
  "valid (fst (ArduinoFilesystemAdapter_ctor fs cfg))
     = (mustMount cfg \<longrightarrow> fst (USE_FS_begin fs (formatOnFail cfg)))"
  by (simp add: ArduinoFilesystemAdapter_ctor_def split: prod.splits)

lemma Arduino_ctor_config: "config (fst (ArduinoFilesystemAdapter_ctor fs cfg)) = cfg"
  by (simp add: ArduinoFilesystemAdapter_ctor_def split: prod.splits)

lemma Arduino_ctor_flash:
  "snd (ArduinoFilesystemAdapter_ctor fs cfg)
     = (if mustMount cfg then snd (USE_FS_begin fs (formatOnFail cfg)) else fs)"
  by (simp add: ArduinoFilesystemAdapter_ctor_def split: prod.splits)

lemma make_Arduino_result:
  "fst (makeDefaultFilesystemAdapter_Arduino fs cfg) =
     (if accessAllowed cfg \<and> (mustMount cfg \<longrightarrow> fst (USE_FS_begin fs (formatOnFail cfg)))
      then Some (fst (ArduinoFilesystemAdapter_ctor fs cfg)) else None)"
proof -
  obtain a fs' where c: "ArduinoFilesystemAdapter_ctor fs cfg = (a, fs')"
    by (cases "ArduinoFilesystemAdapter_ctor fs cfg") auto
  from Arduino_ctor_valid [of fs cfg]
  have "valid a = (mustMount cfg \<longrightarrow> fst (USE_FS_begin fs (formatOnFail cfg)))"
    by (simp add: c)
  then show ?thesis
    by (simp add: makeDefaultFilesystemAdapter_Arduino_def c)
qed

lemma make_Arduino_flash:
  "fst (makeDefaultFilesystemAdapter_Arduino fs cfg) = Some a \<Longrightarrow>
   snd (makeDefaultFilesystemAdapter_Arduino fs cfg) = snd (ArduinoFilesystemAdapter_ctor fs cfg)"
  by (simp add: makeDefaultFilesystemAdapter_Arduino_def split: prod.splits if_splits)

lemma make_EspIdf_result:
  "fst (makeDefaultFilesystemAdapter_EspIdf fs cfg) =
     (if accessAllowed cfg
         \<and> (mustMount cfg \<longrightarrow> fst (esp_vfs_spiffs_register fs (formatOnFail cfg)) = ESP_OK)
      then Some (EspIdfFilesystemAdapter cfg) else None)"
  by (simp add: makeDefaultFilesystemAdapter_EspIdf_def split: prod.splits)

lemma make_EspIdf_flash:
  "snd (makeDefaultFilesystemAdapter_EspIdf fs cfg) =
     (if accessAllowed cfg \<and> mustMount cfg
      then snd (esp_vfs_spiffs_register fs (formatOnFail cfg)) else fs)"
  by (simp add: makeDefaultFilesystemAdapter_EspIdf_def split: prod.splits)

text \<open>
  Claim C9: \<^verbatim>\<open>makeDefaultFilesystemAdapter\<close> returns null whenever the configuration does
  not allow access to the file system, and whenever mounting was required and failed. An
  adapter it returns is valid: access was allowed, and the file system is mounted if the
  configuration required mounting.
\<close>

theorem makeDefault_null_or_valid:
  "(\<not> accessAllowed cfg \<longrightarrow>
      fst (makeDefaultFilesystemAdapter_Arduino fs cfg) = None
      \<and> fst (makeDefaultFilesystemAdapter_EspIdf fs cfg) = None)
   \<and> (mustMount cfg \<and> \<not> fst (USE_FS_begin fs (formatOnFail cfg)) \<longrightarrow>
      fst (makeDefaultFilesystemAdapter_Arduino fs cfg) = None)
   \<and> (mustMount cfg \<and> fst (esp_vfs_spiffs_register fs (formatOnFail cfg)) \<noteq> ESP_OK \<longrightarrow>
      fst (makeDefaultFilesystemAdapter_EspIdf fs cfg) = None)
   \<and> (fst (makeDefaultFilesystemAdapter_Arduino fs cfg) = Some a \<longrightarrow>
      valid a \<and> config a = cfg \<and> accessAllowed cfg
      \<and> (mustMount cfg \<longrightarrow> fst (USE_FS_begin fs (formatOnFail cfg))
            \<and> mounted (snd (makeDefaultFilesystemAdapter_Arduino fs cfg))))
   \<and> (fst (makeDefaultFilesystemAdapter_EspIdf fs cfg) = Some e \<longrightarrow>
      e = EspIdfFilesystemAdapter cfg \<and> accessAllowed cfg
      \<and> (mustMount cfg \<longrightarrow> fst (esp_vfs_spiffs_register fs (formatOnFail cfg)) = ESP_OK
            \<and> mounted (snd (makeDefaultFilesystemAdapter_EspIdf fs cfg))))"
proof (intro conjI impI)
  assume "fst (makeDefaultFilesystemAdapter_Arduino fs cfg) = Some a" and "mustMount cfg"
  then show "mounted (snd (makeDefaultFilesystemAdapter_Arduino fs cfg))"
    by (simp add: make_Arduino_flash [of fs cfg a] Arduino_ctor_flash make_Arduino_result
        USE_FS_begin_mounts split: if_splits)
next
  assume "fst (makeDefaultFilesystemAdapter_EspIdf fs cfg) = Some e" and "mustMount cfg"
  then show "mounted (snd (makeDefaultFilesystemAdapter_EspIdf fs cfg))"
    by (simp add: make_EspIdf_flash make_EspIdf_result register_mounts split: if_splits)
qed (auto simp add: make_Arduino_result make_EspIdf_result Arduino_ctor_valid Arduino_ctor_config
      split: if_splits)

theorem makeDefault_null_or_valid_witness:
  "\<not> accessAllowed no_access
   \<and> fst (makeDefaultFilesystemAdapter_Arduino sample_flash no_access) = None
   \<and> fst (makeDefaultFilesystemAdapter_EspIdf sample_flash no_access) = None
   \<and> mustMount mount_plain \<and> \<not> fst (USE_FS_begin blank_flash (formatOnFail mount_plain))
   \<and> fst (esp_vfs_spiffs_register blank_flash (formatOnFail mount_plain)) \<noteq> ESP_OK
   \<and> fst (makeDefaultFilesystemAdapter_Arduino blank_flash mount_plain) = None
   \<and> fst (makeDefaultFilesystemAdapter_EspIdf blank_flash mount_plain) = None
   \<and> fst (makeDefaultFilesystemAdapter_Arduino blank_flash mount_format)
       = Some \<lparr>valid = True, config = mount_format\<rparr>
   \<and> fst (makeDefaultFilesystemAdapter_EspIdf blank_flash mount_format)
       = Some (EspIdfFilesystemAdapter mount_format)
   \<and> mounted (snd (makeDefaultFilesystemAdapter_Arduino blank_flash mount_format))
   \<and> mounted (snd (makeDefaultFilesystemAdapter_EspIdf blank_flash mount_format))"
proof -
  have a: "fst (makeDefaultFilesystemAdapter_Arduino blank_flash mount_format)
       = Some \<lparr>valid = True, config = mount_format\<rparr>"
    by (simp add: make_Arduino_result ArduinoFilesystemAdapter_ctor_def USE_FS_begin_def
        sample_defs)
  have e: "fst (makeDefaultFilesystemAdapter_EspIdf blank_flash mount_format)
       = Some (EspIdfFilesystemAdapter mount_format)"
    by (simp add: make_EspIdf_result esp_vfs_spiffs_register_def sample_defs)
  have m: "mustMount mount_format" "mustMount mount_plain" "\<not> accessAllowed no_access"
    by (simp_all add: sample_defs)
  have f: "\<not> fst (USE_FS_begin blank_flash (formatOnFail mount_plain))"
    "fst (esp_vfs_spiffs_register blank_flash (formatOnFail mount_plain)) \<noteq> ESP_OK"
    by (simp_all add: USE_FS_begin_def esp_vfs_spiffs_register_def sample_defs)
  from a e m f
    makeDefault_null_or_valid [of no_access sample_flash]
    makeDefault_null_or_valid [of mount_plain blank_flash]
    makeDefault_null_or_valid [of mount_format blank_flash
      "\<lparr>valid = True, config = mount_format\<rparr>" "EspIdfFilesystemAdapter mount_format"]
  show ?thesis by blast
qed

subsection \<open>Failures of the file system underneath\<close>












end
